theory Spec2Isabelle
  imports Complex_Main
begin

section \<open>JavaScript numbers and values\<close>

text \<open>
  The program computes with JavaScript numbers. A number is modelled as an exact real or
  one of the three special values of IEEE arithmetic. Rounding, overflow and the sign of
  zero are not modelled: finite results are exact, and a zero divisor behaves as +0.
  The total operations on finite numbers (addition, multiplication, division by a
  non-zero literal, \<open>Math.max\<close>, \<open>Math.floor\<close>, \<open>Math.sin\<close>) are written on
  \<^typ>\<open>real\<close>; every division by a run-time value, and everything downstream of it,
  goes through the operations of this section, so that a zero divisor shows as an
  infinity or NaN.
\<close>

datatype jsnum = Num real | PosInf | NegInf | NaN

definition infSign :: "bool \<Rightarrow> jsnum" where
  "infSign positive = (if positive then PosInf else NegInf)"

fun jsNeg :: "jsnum \<Rightarrow> jsnum" where
  "jsNeg (Num a) = Num (- a)"
| "jsNeg PosInf = NegInf"
| "jsNeg NegInf = PosInf"
| "jsNeg NaN = NaN"

fun jsAdd :: "jsnum \<Rightarrow> jsnum \<Rightarrow> jsnum" where
  "jsAdd NaN y = NaN"
| "jsAdd x NaN = NaN"
| "jsAdd (Num a) (Num b) = Num (a + b)"
| "jsAdd (Num a) y = y"
| "jsAdd x (Num b) = x"
| "jsAdd PosInf PosInf = PosInf"
| "jsAdd NegInf NegInf = NegInf"
| "jsAdd PosInf NegInf = NaN"
| "jsAdd NegInf PosInf = NaN"

definition jsSub :: "jsnum \<Rightarrow> jsnum \<Rightarrow> jsnum" where
  "jsSub x y = jsAdd x (jsNeg y)"

fun jsMul :: "jsnum \<Rightarrow> jsnum \<Rightarrow> jsnum" where
  "jsMul NaN y = NaN"
| "jsMul x NaN = NaN"
| "jsMul (Num a) (Num b) = Num (a * b)"
| "jsMul (Num a) PosInf = (if a = 0 then NaN else infSign (0 < a))"
| "jsMul (Num a) NegInf = (if a = 0 then NaN else infSign (a < 0))"
| "jsMul PosInf (Num b) = (if b = 0 then NaN else infSign (0 < b))"
| "jsMul NegInf (Num b) = (if b = 0 then NaN else infSign (b < 0))"
| "jsMul PosInf PosInf = PosInf"
| "jsMul NegInf NegInf = PosInf"
| "jsMul PosInf NegInf = NegInf"
| "jsMul NegInf PosInf = NegInf"

fun jsDiv :: "jsnum \<Rightarrow> jsnum \<Rightarrow> jsnum" where
  "jsDiv NaN y = NaN"
| "jsDiv x NaN = NaN"
| "jsDiv (Num a) (Num b) =
     (if b \<noteq> 0 then Num (a / b) else if a = 0 then NaN else infSign (0 < a))"
| "jsDiv (Num a) y = Num 0"
| "jsDiv PosInf (Num b) = infSign (0 \<le> b)"
| "jsDiv NegInf (Num b) = infSign (b < 0)"
| "jsDiv x y = NaN"

fun jsAbs :: "jsnum \<Rightarrow> jsnum" where
  "jsAbs (Num a) = Num \<bar>a\<bar>"
| "jsAbs PosInf = PosInf"
| "jsAbs NegInf = PosInf"
| "jsAbs NaN = NaN"

text \<open>\<open>Math.min\<close> of two numbers: NaN when either is NaN.\<close>

fun jsMin :: "jsnum \<Rightarrow> jsnum \<Rightarrow> jsnum" where
  "jsMin NaN y = NaN"
| "jsMin x NaN = NaN"
| "jsMin NegInf y = NegInf"
| "jsMin x NegInf = NegInf"
| "jsMin PosInf y = y"
| "jsMin x PosInf = x"
| "jsMin (Num a) (Num b) = Num (min a b)"

text \<open>The comparison \<open>x > y\<close> on numbers: false when either is NaN.\<close>

fun numGt :: "jsnum \<Rightarrow> jsnum \<Rightarrow> bool" where
  "numGt NaN y = False"
| "numGt x NaN = False"
| "numGt (Num a) (Num b) = (b < a)"
| "numGt PosInf PosInf = False"
| "numGt PosInf y = True"
| "numGt x PosInf = False"
| "numGt NegInf y = False"
| "numGt x NegInf = True"

text \<open>\<open>x || y\<close> on numbers: \<open>y\<close> when \<open>x\<close> is falsy, that is zero or NaN.\<close>

fun jsOr :: "jsnum \<Rightarrow> jsnum \<Rightarrow> jsnum" where
  "jsOr (Num a) y = (if a = 0 then y else Num a)"
| "jsOr NaN y = y"
| "jsOr x y = x"


text \<open>A number that is finite and lies between two bounds.\<close>

fun inRange :: "real \<Rightarrow> real \<Rightarrow> jsnum \<Rightarrow> bool" where
  "inRange lo hi (Num a) = (lo \<le> a \<and> a \<le> hi)"
| "inRange lo hi x = False"

text \<open>
  A property read from an object is a number, \<open>null\<close> (an indicator initialised with
  \<open>null\<close> and never computed) or \<open>undefined\<close> (the property of the empty object
  \<open>{}\<close>). The relational operators convert both operands with ToNumber.
\<close>

datatype jsval = Undefined | Null | Number jsnum

fun ToNumber :: "jsval \<Rightarrow> jsnum" where
  "ToNumber Undefined = NaN"
| "ToNumber Null = Num 0"
| "ToNumber (Number x) = x"

definition jsGt :: "jsval \<Rightarrow> jsval \<Rightarrow> bool" where
  "jsGt x y = numGt (ToNumber x) (ToNumber y)"

text \<open>
  \<open>Array.prototype.slice(start, end)\<close>: a negative index counts from the end of the
  array, and both are clamped to the array.
\<close>

definition relIndex :: "int \<Rightarrow> nat \<Rightarrow> nat" where
  "relIndex k len = (if k < 0 then nat (max (int len + k) 0) else min (nat k) len)"

definition slice :: "'a list \<Rightarrow> int \<Rightarrow> int \<Rightarrow> 'a list" where
  "slice xs start end =
     (let from = relIndex start (length xs); to = relIndex end (length xs)
      in take (to - from) (drop from xs))"

definition sliceFrom :: "'a list \<Rightarrow> int \<Rightarrow> 'a list" where
  "sliceFrom xs start = drop (relIndex start (length xs)) xs"

section \<open>The synthetic series\<close>

text \<open>
  A date is the number of its calendar day. The clock reading \<open>new Date()\<close> is an
  input of the model (\<open>now\<close>, the day of the call); formatting a date as an ISO string
  and time zones are not modelled. A ticker is the list of its UTF-16 code units.
\<close>

record PricePoint =
  date :: int
  price :: real
  volume :: int







section \<open>The indicators\<close>

record IndicatorPoint = PricePoint +
  sma50 :: "real option"
  sma200 :: "real option"
  rsi :: jsnum
  bbUpper :: "real option"
  bbLower :: "real option"
  zScore :: jsnum

definition period50 :: nat where
  "period50 = 50"

definition period200 :: nat where
  "period200 = 200"

definition rsiPeriod :: nat where
  "rsiPeriod = 14"

definition sma50At :: "PricePoint list \<Rightarrow> nat \<Rightarrow> real option" where
  "sma50At data index =
     (if index \<ge> period50 - 1 then
        (let sl = slice data (int index - int period50 + 1) (int index + 1)
         in Some (foldl (\<lambda>sum d. sum + price d) 0 sl / real period50))
      else None)"

definition sma200At :: "PricePoint list \<Rightarrow> nat \<Rightarrow> real option" where
  "sma200At data index =
     (if index \<ge> period200 - 1 then
        (let sl = slice data (int index - int period200 + 1) (int index + 1)
         in Some (foldl (\<lambda>sum d. sum + price d) 0 sl / real period200))
      else None)"

text \<open>The inner loop of the rolling RSI: \<open>for (k = 1; k < slice.length; k++)\<close>.\<close>

function rsiLoop :: "PricePoint list \<Rightarrow> nat \<Rightarrow> real \<times> real \<Rightarrow> real \<times> real" where
  "rsiLoop sl k (g, l) =
     (if k < length sl then
        (let d = price (sl ! k) - price (sl ! (k - 1))
         in rsiLoop sl (k + 1) (if d > 0 then (g + d, l) else (g, l - d)))
      else (g, l))"
  by pat_completeness auto
termination
  by (relation "measure (\<lambda>(sl, k, gl). length sl - k)") auto

declare rsiLoop.simps [simp del]

definition rsiFormula :: "real \<Rightarrow> real \<Rightarrow> jsnum" where
  "rsiFormula avgGain avgLoss =
     jsSub (Num 100)
       (jsDiv (Num 100) (jsAdd (Num 1) (jsDiv (Num avgGain) (jsOr (Num avgLoss) (Num 1)))))"

text \<open>
  The RSI of one index. \<open>gains\<close> and \<open>losses\<close> are the two variables the callback of
  \<open>data.map\<close> closes over: the state is passed in and returned.
\<close>

definition rsiAt :: "PricePoint list \<Rightarrow> nat \<Rightarrow> real \<times> real \<Rightarrow> jsnum \<times> (real \<times> real)" where
  "rsiAt data index st =
     (case st of (gains, losses) \<Rightarrow>
        if index > 0 then
          (let change = price (data ! index) - price (data ! (index - 1)) in
           if index \<le> rsiPeriod then
             (let st1 = (if change > 0 then (gains + change, losses)
                         else (gains, losses - change)) in
              if index = rsiPeriod then
                (let avgGain = fst st1 / real rsiPeriod;
                     avgLoss = snd st1 / real rsiPeriod
                 in (rsiFormula avgGain avgLoss, st1))
              else (Num 50, st1))
           else
             (let sl = slice data (int index - int rsiPeriod + 1) (int index + 1);
                  gl = rsiLoop sl 1 (0, 0)
              in (rsiFormula (fst gl / real rsiPeriod) (snd gl / real rsiPeriod),
                  (gains, losses))))
        else (Num 50, (gains, losses)))"

definition bollingerAt :: "PricePoint list \<Rightarrow> nat \<Rightarrow> real option \<times> real option \<times> jsnum" where
  "bollingerAt data index =
     (if index \<ge> 20 then
        (let sl = slice data (int index - 19) (int index + 1);
             mean = foldl (\<lambda>a b. a + price b) 0 sl / 20;
             stdDev = sqrt (foldl (\<lambda>a b. a + (price b - mean) ^ 2) 0 sl / 20)
         in (Some (mean + 2 * stdDev), Some (mean - 2 * stdDev),
             jsDiv (Num (price (data ! index) - mean)) (jsOr (Num stdDev) (Num 1))))
      else (None, None, Num 0))"

text \<open>The callback of \<open>data.map\<close> at one index, with the state of the RSI bootstrap.\<close>

definition indicatorStep ::
  "PricePoint list \<Rightarrow> real \<times> real \<Rightarrow> nat \<Rightarrow> IndicatorPoint \<times> (real \<times> real)" where
  "indicatorStep data st index =
     (let day = data ! index;
          r = rsiAt data index st;
          bb = bollingerAt data index
      in (\<lparr>date = date day, price = price day, volume = volume day,
           sma50 = sma50At data index, sma200 = sma200At data index, rsi = fst r,
           bbUpper = fst bb, bbLower = fst (snd bb), zScore = snd (snd bb)\<rparr>,
          snd r))"

fun mapWithState :: "PricePoint list \<Rightarrow> real \<times> real \<Rightarrow> nat list \<Rightarrow> IndicatorPoint list" where
  "mapWithState data st [] = []"
| "mapWithState data st (index # rest) =
     (let r = indicatorStep data st index in fst r # mapWithState data (snd r) rest)"

definition dataWithIndicators :: "PricePoint list \<Rightarrow> IndicatorPoint list" where
  "dataWithIndicators data = mapWithState data (0, 0) [0..<length data]"

definition calculateIndicators :: "PricePoint list \<Rightarrow> IndicatorPoint list" where
  "calculateIndicators data = sliceFrom (dataWithIndicators data) (- 200)"

section \<open>Scoring and sizing\<close>

text \<open>
  \<open>current = data[data.length - 1] || {}\<close> and \<open>prev = data[data.length - 2] || {}\<close>:
  \<open>None\<close> is the empty object, whose every property is \<open>undefined\<close>. The total
  score, a sum of three scores among -1, 0 and 1 weighted by the sliders, is a finite
  number and is taken as a real.
\<close>

definition current :: "IndicatorPoint list \<Rightarrow> IndicatorPoint option" where
  "current data = (if data = [] then None else Some (data ! (length data - 1)))"


fun getPrice :: "IndicatorPoint option \<Rightarrow> jsval" where
  "getPrice None = Undefined"
| "getPrice (Some p) = Number (Num (price p))"

fun getSma200 :: "IndicatorPoint option \<Rightarrow> jsval" where
  "getSma200 None = Undefined"
| "getSma200 (Some p) = (case sma200 p of None \<Rightarrow> Null | Some v \<Rightarrow> Number (Num v))"

definition trendScore :: "IndicatorPoint option \<Rightarrow> int" where
  "trendScore cur = (if jsGt (getPrice cur) (getSma200 cur) then 1 else - 1)"

datatype verdict = BUY | SELL | NEUTRAL

definition verdictOf :: "real \<Rightarrow> verdict" where
  "verdictOf totalScore =
     (if totalScore > 0.2 then BUY else if totalScore < - 0.2 then SELL else NEUTRAL)"

definition volatility :: "IndicatorPoint option \<Rightarrow> IndicatorPoint option \<Rightarrow> jsnum" where
  "volatility cur prv =
     jsDiv (jsSub (ToNumber (getPrice cur)) (ToNumber (getPrice prv))) (ToNumber (getPrice prv))"

definition annualizedVol :: "IndicatorPoint option \<Rightarrow> IndicatorPoint option \<Rightarrow> jsnum" where
  "annualizedVol cur prv = jsAbs (jsMul (volatility cur prv) (Num (sqrt 252)))"

definition targetVol :: real where
  "targetVol = 0.15"

definition rawSize :: "IndicatorPoint option \<Rightarrow> IndicatorPoint option \<Rightarrow> real \<Rightarrow> jsnum" where
  "rawSize cur prv totalScore =
     jsMul (jsDiv (Num targetVol) (jsOr (annualizedVol cur prv) (Num 0.01)))
       (jsAbs (Num totalScore))"

definition positionSize :: "IndicatorPoint option \<Rightarrow> IndicatorPoint option \<Rightarrow> real \<Rightarrow> jsnum" where
  "positionSize cur prv totalScore = jsMul (jsMin (rawSize cur prv totalScore) (Num 2.5)) (Num 10)"

text \<open>
  The size formula as the specification words it, for a finite annualized volatility:
  the divisor floored at 0.01.
\<close>

definition rawSizeFloored :: "real \<Rightarrow> real \<Rightarrow> real" where
  "rawSizeFloored vol totalScore = (0.15 / max vol 0.01) * \<bar>totalScore\<bar>"

text \<open>
  An indicator point with a given price and 200-day average, for the examples below;
  the other fields are those of a first point of a series.
\<close>

definition examplePoint :: "real \<Rightarrow> real option \<Rightarrow> IndicatorPoint" where
  "examplePoint p s = \<lparr>date = 0, price = p, volume = 0, sma50 = None, sma200 = s,
     rsi = Num 50, bbUpper = None, bbLower = None, zScore = Num 0\<rparr>"

text \<open>
  A series of 16 prices that rise by 2 twice and fall by 1 once, in turn, and a series
  of \<open>n\<close> identical prices, for the examples below.
\<close>

definition exampleSeries :: "PricePoint list" where
  "exampleSeries = map (\<lambda>(d, p). \<lparr>date = d, price = p, volume = 0\<rparr>)
     (zip [0, 1, 2, 3, 4, 5, 6, 7, 8, 9, 10, 11, 12, 13, 14, 15]
        [100, 102, 101, 103, 105, 104, 106, 108, 107, 109, 111, 110, 112, 114, 113, 115])"

definition flatSeries :: "nat \<Rightarrow> PricePoint list" where
  "flatSeries n = map (\<lambda>d. \<lparr>date = int d, price = 100, volume = 0\<rparr>) [0..<n]"

section \<open>The synthetic series: shape and dependence on the clock\<close>













section \<open>The indicator engine\<close>

subsection \<open>Slices and the mapped series\<close>

lemma slice_window:
  "0 \<le> a \<Longrightarrow> a \<le> b \<Longrightarrow> b \<le> int (length xs) \<Longrightarrow>
   slice xs a b = take (nat b - nat a) (drop (nat a) xs)"
  by (auto simp: slice_def relIndex_def Let_def min_def nat_le_iff)

lemma sliceFrom_last: "sliceFrom xs (- 200) = drop (length xs - 200) xs"
  by (simp add: sliceFrom_def relIndex_def max_def nat_diff_distrib')

lemma foldl_plus: "foldl (\<lambda>a b. a + f b) z xs = z + sum_list (map f xs)" for z :: real
  by (induction xs arbitrary: z) simp_all

lemma mapWithState_length: "length (mapWithState data st is) = length is"
  by (induction "is" arbitrary: st) (simp_all add: Let_def)

lemma dataWithIndicators_length: "length (dataWithIndicators data) = length data"
  by (simp add: dataWithIndicators_def mapWithState_length)

lemma calculateIndicators_drop:
  "calculateIndicators data = drop (length data - 200) (dataWithIndicators data)"
  by (simp add: calculateIndicators_def sliceFrom_last dataWithIndicators_length)


lemma calculateIndicators_length: "length (calculateIndicators data) = min (length data) 200"
  by (simp add: calculateIndicators_drop dataWithIndicators_length)

text \<open>The point of input index \<open>i\<close> in the returned list, when it is among the last 200.\<close>

lemma calculateIndicators_nth:
  "length data - 200 \<le> i \<Longrightarrow> i < length data \<Longrightarrow>
   calculateIndicators data ! (i - (length data - 200)) = dataWithIndicators data ! i"
  by (simp add: calculateIndicators_drop dataWithIndicators_length)

subsection \<open>The state of the bootstrap: gains and losses never negative\<close>

lemma rsiAt_state:
  "0 \<le> fst st \<Longrightarrow> 0 \<le> snd st \<Longrightarrow>
   0 \<le> fst (snd (rsiAt data index st)) \<and> 0 \<le> snd (snd (rsiAt data index st))"
  by (cases st) (simp add: rsiAt_def Let_def)

lemma indicatorStep_state:
  "0 \<le> fst st \<Longrightarrow> 0 \<le> snd st \<Longrightarrow>
   0 \<le> fst (snd (indicatorStep data st index)) \<and> 0 \<le> snd (snd (indicatorStep data st index))"
  using rsiAt_state [of st data index] by (simp add: indicatorStep_def Let_def)

lemma mapWithState_nth:
  "k < length is \<Longrightarrow> 0 \<le> fst st \<Longrightarrow> 0 \<le> snd st \<Longrightarrow>
   \<exists>st'. 0 \<le> fst st' \<and> 0 \<le> snd st' \<and>
     mapWithState data st is ! k = fst (indicatorStep data st' (is ! k))"
proof (induction "is" arbitrary: st k)
  case Nil
  then show ?case by simp
next
  case (Cons index rest)
  show ?case
  proof (cases k)
    case 0
    then show ?thesis
      using Cons.prems by (intro exI [of _ st]) (simp add: Let_def)
  next
    case (Suc j)
    then have "j < length rest"
      using Cons.prems by simp
    from Cons.IH [OF this, of "snd (indicatorStep data st index)"]
      indicatorStep_state [OF Cons.prems(2,3), of data index]
    show ?thesis
      using Suc by (simp add: Let_def)
  qed
qed

text \<open>Every point of the mapped series is the callback at its index, in some state that is not negative.\<close>

lemma dataWithIndicators_nth:
  assumes "i < length data"
  shows "\<exists>st. 0 \<le> fst st \<and> 0 \<le> snd st \<and>
     dataWithIndicators data ! i = fst (indicatorStep data st i)"
  using mapWithState_nth [of i "[0..<length data]" "(0, 0)" data] assms
  by (simp add: dataWithIndicators_def)


subsection \<open>The RSI\<close>




lemma rsi_indicatorStep: "rsi (fst (indicatorStep data st index)) = fst (rsiAt data index st)"
  by (simp add: indicatorStep_def Let_def)

lemma rsiAt_bootstrap: "index < 14 \<Longrightarrow> fst (rsiAt data index st) = Num 50"
  by (cases st) (simp add: rsiAt_def Let_def rsiPeriod_def)


lemma dataWithIndicators_rsi_default:
  assumes "i < length data" "i < 14"
  shows "rsi (dataWithIndicators data ! i) = Num 50"
proof -
  from dataWithIndicators_nth [OF assms(1)] obtain st where
    "dataWithIndicators data ! i = fst (indicatorStep data st i)"
    by blast
  then show ?thesis
    using assms(2) by (simp add: rsi_indicatorStep rsiAt_bootstrap)
qed

lemma exampleSeries_length: "length exampleSeries = 16"
  by (simp add: exampleSeries_def)





text \<open>
  Claim C10. For every series of at least 15 points, the RSI at every index from 1 to 13
  is 50, the default that index 0 carries: the bootstrap accumulates gains and losses
  there and assigns no RSI before index 14. This holds in the mapped series, and in the
  returned list wherever that index is among the last 200.
\<close>

theorem rsi_bootstrap_default:
  assumes "15 \<le> length data" "1 \<le> i" "i \<le> 13"
  shows "rsi (dataWithIndicators data ! i) = Num 50 \<and>
    rsi (dataWithIndicators data ! 0) = Num 50 \<and>
    (length data - 200 \<le> i \<longrightarrow> rsi (calculateIndicators data ! (i - (length data - 200))) = Num 50)"
proof -
  have len: "0 < length data" "i < length data" and i: "i < 14"
    using assms by linarith+
  have "rsi (dataWithIndicators data ! 0) = Num 50"
    using len(1) by (rule dataWithIndicators_rsi_default) simp
  moreover have "rsi (dataWithIndicators data ! i) = Num 50"
    using len(2) i by (rule dataWithIndicators_rsi_default)
  ultimately show ?thesis
    using len(2) by (simp add: calculateIndicators_nth)
qed

text \<open>Claim C10 on the example series of 16 points, at the indices 1 and 13.\<close>

theorem rsi_bootstrap_default_witness:
  "15 \<le> length exampleSeries \<and> rsi (dataWithIndicators exampleSeries ! 1) = Num 50 \<and>
   rsi (calculateIndicators exampleSeries ! 13) = Num 50"
  using rsi_bootstrap_default [of exampleSeries 1] rsi_bootstrap_default [of exampleSeries 13]
  by (simp add: exampleSeries_length)

subsection \<open>The Bollinger bands and the z-score\<close>

lemma bollinger_indicatorStep:
  "bbUpper (fst (indicatorStep data st index)) = fst (bollingerAt data index) \<and>
   bbLower (fst (indicatorStep data st index)) = fst (snd (bollingerAt data index)) \<and>
   zScore (fst (indicatorStep data st index)) = snd (snd (bollingerAt data index))"
  by (simp add: indicatorStep_def Let_def)

lemma dataWithIndicators_bollinger:
  assumes "i < length data"
  shows "bbUpper (dataWithIndicators data ! i) = fst (bollingerAt data i) \<and>
   bbLower (dataWithIndicators data ! i) = fst (snd (bollingerAt data i)) \<and>
   zScore (dataWithIndicators data ! i) = snd (snd (bollingerAt data i))"
proof -
  from dataWithIndicators_nth [OF assms] obtain st where
    "dataWithIndicators data ! i = fst (indicatorStep data st i)"
    by blast
  then show ?thesis
    by (simp add: bollinger_indicatorStep)
qed

text \<open>Below index 20 the guard \<open>index >= 20\<close> leaves the initial values.\<close>

lemma bollingerAt_early: "index < 20 \<Longrightarrow> bollingerAt data index = (None, None, Num 0)"
  by (simp add: bollingerAt_def)

text \<open>
  From index 20 on, the bands and the z-score are those of the 20 prices ending at the
  index, and a zero standard deviation is replaced by 1 before the division.
\<close>

lemma bollingerAt_window:
  assumes "20 \<le> i" "i < length data"
  shows "bollingerAt data i =
    (let w = take 20 (drop (i - 19) data);
         mean = sum_list (map price w) / 20;
         stdDev = sqrt (sum_list (map (\<lambda>q. (price q - mean) ^ 2) w) / 20)
     in (Some (mean + 2 * stdDev), Some (mean - 2 * stdDev),
         Num ((price (data ! i) - mean) / (if stdDev = 0 then 1 else stdDev))))"
proof -
  have "slice data (int i - 19) (int i + 1) = take 20 (drop (i - 19) data)"
    using assms by (subst slice_window) (simp_all add: nat_diff_distrib' nat_add_distrib)
  then show ?thesis
    using assms by (simp add: bollingerAt_def Let_def foldl_plus)
qed

text \<open>The square root is taken of a number that is not negative.\<close>

lemma radicand_nonneg: "0 \<le> foldl (\<lambda>a b. a + (price b - mean) ^ 2) 0 sl / 20"
  by (simp add: foldl_plus) (rule sum_list_nonneg, auto)


lemma flatSeries_length: "length (flatSeries n) = n"
  by (simp add: flatSeries_def)

lemma flatSeries_window:
  assumes "20 \<le> i" "i < n"
  shows "map price (take 20 (drop (i - 19) (flatSeries n))) = replicate 20 100"
proof -
  have flat: "map price (flatSeries n) = replicate n 100"
    by (simp add: flatSeries_def map_replicate_const comp_def)
  have "map price (take 20 (drop (i - 19) (flatSeries n))) =
      take 20 (drop (i - 19) (map price (flatSeries n)))"
    by (simp add: take_map drop_map)
  also have "\<dots> = replicate 20 100"
    using assms by (simp add: flat min_def)
  finally show ?thesis .
qed

text \<open>
  On identical prices, from index 20 on, both bands are the price and the z-score is 0
  through the guard: the standard deviation is 0.
\<close>

lemma bollingerAt_flat:
  assumes "20 \<le> i" "i < n"
  shows "bollingerAt (flatSeries n) i = (Some 100, Some 100, Num 0)"
proof -
  let ?w = "take 20 (drop (i - 19) (flatSeries n))"
  have w: "map price ?w = replicate 20 100"
    using assms by (rule flatSeries_window)
  have mean: "sum_list (map price ?w) / 20 = 100"
    by (simp only: w) (simp add: sum_list_replicate)
  have "map (\<lambda>q. (price q - 100) ^ 2) ?w = map (\<lambda>x. (x - 100) ^ 2) (map price ?w)"
    by (simp add: comp_def)
  then have sq: "sum_list (map (\<lambda>q. (price q - 100) ^ 2) ?w) = 0"
    by (simp only: w) (simp add: sum_list_replicate)
  have "price (flatSeries n ! i) = 100"
    using assms by (simp add: flatSeries_def)
  then show ?thesis
    using assms by (simp add: bollingerAt_window flatSeries_length Let_def mean sq)
qed

lemma bollinger_present_at_20:
  "bbUpper (calculateIndicators (flatSeries 21) ! 20) = Some 100 \<and>
   bbLower (calculateIndicators (flatSeries 21) ! 20) = Some 100 \<and>
   zScore (calculateIndicators (flatSeries 21) ! 20) = Num 0"
  using dataWithIndicators_bollinger [of 20 "flatSeries 21"]
  by (simp add: calculateIndicators_drop flatSeries_length dataWithIndicators_length
      bollingerAt_flat)

text \<open>
  Claim C1 fails on the code at index 19. The Bollinger block is guarded by
  \<open>index >= 20\<close>, while its window \<open>slice(index - 19, index + 1)\<close> of 20 prices is
  there from index 19 on. On 20 identical prices the point of index 19 carries no bands,
  and its z-score 0 is the initial value, not the result of the guarded division.
\<close>

theorem bollinger_missing_at_19:
  "length (calculateIndicators (flatSeries 20)) = 20 \<and>
   bbUpper (calculateIndicators (flatSeries 20) ! 19) = None \<and>
   bbLower (calculateIndicators (flatSeries 20) ! 19) = None \<and>
   zScore (calculateIndicators (flatSeries 20) ! 19) = Num 0"
  using dataWithIndicators_bollinger [of 19 "flatSeries 20"]
  by (simp add: calculateIndicators_drop flatSeries_length dataWithIndicators_length
      bollingerAt_early)

section \<open>Verdict, trend score and position size\<close>

text \<open>
  Claim C6. The verdict is BUY exactly when the total score exceeds 0.2, SELL exactly
  when it is below -0.2, and NEUTRAL otherwise; 0.21 gives BUY, 0.20 gives NEUTRAL and
  -0.21 gives SELL.
\<close>

theorem verdict_thresholds:
  "(verdictOf totalScore = BUY \<longleftrightarrow> totalScore > 0.2) \<and>
   (verdictOf totalScore = SELL \<longleftrightarrow> totalScore < - 0.2) \<and>
   (verdictOf totalScore = NEUTRAL \<longleftrightarrow> \<not> totalScore > 0.2 \<and> \<not> totalScore < - 0.2) \<and>
   verdictOf 0.21 = BUY \<and> verdictOf 0.20 = NEUTRAL \<and> verdictOf (- 0.21) = SELL"
  by (simp add: verdictOf_def)

text \<open>Claim C6 at the scores 0.5, -0.5 and 0.\<close>

theorem verdict_thresholds_witness:
  "verdictOf 0.5 = BUY \<and> verdictOf (- 0.5) = SELL \<and> verdictOf 0 = NEUTRAL"
  using verdict_thresholds [of "0.5"] verdict_thresholds [of "- 0.5"] verdict_thresholds [of 0]
  by simp

lemma sqrt252_pos: "0 < sqrt 252"
  by simp

lemma sqrt252_less: "sqrt 252 < 100"
  by (rule real_less_lsqrt) simp_all

text \<open>The annualized volatility is an absolute value: NaN, infinite or a real that is not negative.\<close>

lemma annualizedVol_cases:
  "annualizedVol cur prv = NaN \<or> annualizedVol cur prv = PosInf \<or>
   (\<exists>v. annualizedVol cur prv = Num v \<and> 0 \<le> v)"
  by (cases "volatility cur prv") (auto simp: annualizedVol_def infSign_def)

lemma vol_rise: "annualizedVol (Some (examplePoint 102 None)) (Some (examplePoint 100 None)) = Num (sqrt 252 / 50)"
  by (simp add: annualizedVol_def volatility_def examplePoint_def jsSub_def)

lemma vol_flat: "annualizedVol (Some (examplePoint 100 None)) (Some (examplePoint 100 None)) = Num 0"
  by (simp add: annualizedVol_def volatility_def examplePoint_def jsSub_def)

lemma vol_no_prev: "annualizedVol (Some (examplePoint 100 None)) None = NaN"
  by (simp add: annualizedVol_def volatility_def examplePoint_def jsSub_def)

lemma vol_zero_prev: "annualizedVol (Some (examplePoint 100 None)) (Some (examplePoint 0 None)) = PosInf"
  by (simp add: annualizedVol_def volatility_def examplePoint_def jsSub_def infSign_def)

lemma vol_small: "annualizedVol (Some (examplePoint 10001 None)) (Some (examplePoint 10000 None)) = Num (sqrt 252 / 10000)"
  by (simp add: annualizedVol_def volatility_def examplePoint_def jsSub_def)

text \<open>
  Claim C7. For every current and previous point and every total score, the position
  size is min(rawSize, 2.5) times 10, a finite percentage between 0 and 25.
\<close>

theorem positionSize_bounded:
  "positionSize cur prv totalScore = jsMul (jsMin (rawSize cur prv totalScore) (Num 2.5)) (Num 10) \<and>
   inRange 0 25 (positionSize cur prv totalScore)"
  using annualizedVol_cases [of cur prv]
  by (auto simp: positionSize_def rawSize_def targetVol_def infSign_def min_def)

text \<open>Claim C7 for a 2 percent daily move, for an unchanged price and for a missing previous point.\<close>

theorem positionSize_bounded_witness:
  "inRange 0 25 (positionSize (Some (examplePoint 102 None)) (Some (examplePoint 100 None)) 0.5) \<and>
   positionSize (Some (examplePoint 100 None)) (Some (examplePoint 100 None)) 0.5 = Num 25 \<and>
   positionSize (Some (examplePoint 100 None)) None 0.1 = Num 15"
proof -
  have "inRange 0 25
      (positionSize (Some (examplePoint 102 None)) (Some (examplePoint 100 None)) 0.5)"
    using positionSize_bounded [of "Some (examplePoint 102 None)" "Some (examplePoint 100 None)" "0.5"]
    by (rule conjunct2)
  moreover have "positionSize (Some (examplePoint 100 None)) (Some (examplePoint 100 None)) 0.5 = Num 25"
    by (simp add: positionSize_def rawSize_def vol_flat targetVol_def)
  moreover have "positionSize (Some (examplePoint 100 None)) None 0.1 = Num 15"
    by (simp add: positionSize_def rawSize_def vol_no_prev targetVol_def)
  ultimately show ?thesis
    by (intro conjI)
qed

text \<open>
  Claim C2, as the code has it. The divisor of the size formula is the annualized
  volatility itself whenever that is a number other than zero, however small; 0.01
  replaces it only when it is zero or NaN. An infinite volatility gives size 0. The
  formula of the specification, with the divisor floored at 0.01, agrees with the code
  when the volatility is zero or at least 0.01.
\<close>

theorem rawSize_divisor:
  "(annualizedVol cur prv = Num v \<and> v \<noteq> 0 \<longrightarrow>
      rawSize cur prv totalScore = Num (0.15 / v * \<bar>totalScore\<bar>)) \<and>
   (annualizedVol cur prv = Num 0 \<or> annualizedVol cur prv = NaN \<longrightarrow>
      rawSize cur prv totalScore = Num (0.15 / 0.01 * \<bar>totalScore\<bar>)) \<and>
   (annualizedVol cur prv = PosInf \<longrightarrow> rawSize cur prv totalScore = Num 0) \<and>
   (annualizedVol cur prv = Num v \<and> (v = 0 \<or> 0.01 \<le> v) \<longrightarrow>
      rawSize cur prv totalScore = Num (rawSizeFloored v totalScore))"
  by (auto simp: rawSize_def targetVol_def rawSizeFloored_def max_def)

text \<open>
  Claim C2 as amended, on a 2 percent move, an unchanged price, a missing previous point
  and a previous price of zero.
\<close>

theorem rawSize_divisor_witness:
  "rawSize (Some (examplePoint 102 None)) (Some (examplePoint 100 None)) 1
     = Num (0.15 / (sqrt 252 / 50) * \<bar>1\<bar>) \<and>
   rawSize (Some (examplePoint 100 None)) (Some (examplePoint 100 None)) 1 = Num (0.15 / 0.01 * \<bar>1\<bar>) \<and>
   rawSize (Some (examplePoint 100 None)) None 1 = Num (0.15 / 0.01 * \<bar>1\<bar>) \<and>
   rawSize (Some (examplePoint 100 None)) (Some (examplePoint 0 None)) 1 = Num 0 \<and>
   rawSize (Some (examplePoint 100 None)) (Some (examplePoint 100 None)) 1 = Num (rawSizeFloored 0 1)"
  using rawSize_divisor [of "Some (examplePoint 102 None)" "Some (examplePoint 100 None)" "sqrt 252 / 50" 1]
    rawSize_divisor [of "Some (examplePoint 100 None)" "Some (examplePoint 100 None)" 0 1]
    rawSize_divisor [of "Some (examplePoint 100 None)" None 0 1]
    rawSize_divisor [of "Some (examplePoint 100 None)" "Some (examplePoint 0 None)" 0 1]
    vol_rise vol_flat vol_no_prev vol_zero_prev
  by (simp add: rawSizeFloored_def)

text \<open>
  Claim C2 as stated fails: from a previous price of 10000 to a current price of 10001
  the annualized volatility is below 0.01 and not zero, and the code divides by it, not
  by 0.01.
\<close>

theorem rawSize_floor_counterexample:
  "annualizedVol (Some (examplePoint 10001 None)) (Some (examplePoint 10000 None))
     = Num (sqrt 252 / 10000) \<and>
   sqrt 252 / 10000 < 0.01 \<and>
   rawSize (Some (examplePoint 10001 None)) (Some (examplePoint 10000 None)) 1
     \<noteq> Num (rawSizeFloored (sqrt 252 / 10000) 1)"
proof -
  have lt: "sqrt 252 / 10000 < 0.01"
    using sqrt252_less by simp
  have "rawSize (Some (examplePoint 10001 None)) (Some (examplePoint 10000 None)) 1
      = Num (1500 / sqrt 252)"
    by (simp add: rawSize_def vol_small targetVol_def)
  moreover have "rawSizeFloored (sqrt 252 / 10000) 1 = 15"
    using lt by (simp add: rawSizeFloored_def max_def)
  moreover have "1500 / sqrt 252 \<noteq> 15"
    using sqrt252_less sqrt252_pos by (simp add: field_simps)
  ultimately show ?thesis
    using lt vol_small by simp
qed

text \<open>
  Claim C8, as the code has it. With a 200-day average present, the trend score is +1
  when the price exceeds it and -1 otherwise. An average that was never computed is
  \<open>null\<close>, which the comparison reads as 0: the trend score is then +1 exactly when
  the price is positive. Only with no current point at all (an empty series, every
  property \<open>undefined\<close>) is the comparison false whatever the price, and the score -1.
\<close>

theorem trendScore_cases:
  "trendScore None = - 1 \<and>
   (sma200 p = Some s \<longrightarrow> trendScore (Some p) = (if price p > s then 1 else - 1)) \<and>
   (sma200 p = None \<longrightarrow> trendScore (Some p) = (if price p > 0 then 1 else - 1))"
  by (simp add: trendScore_def jsGt_def)

text \<open>
  Claim C8 as amended, at price 110 and at price 90 against an average of 100, and at
  price 110 with no average.
\<close>

theorem trendScore_cases_witness:
  "trendScore (Some (examplePoint 110 (Some 100))) = 1 \<and>
   trendScore (Some (examplePoint 90 (Some 100))) = - 1 \<and>
   trendScore (Some (examplePoint 110 None)) = 1 \<and> trendScore None = - 1"
  using trendScore_cases [of "examplePoint 110 (Some 100)" 100]
    trendScore_cases [of "examplePoint 90 (Some 100)" 100]
    trendScore_cases [of "examplePoint 110 None" 0]
  by (simp add: examplePoint_def)

text \<open>
  Claim C8 as stated fails: the only point of a one-point series at price 110 has no
  200-day average, and its trend score is +1, not -1.
\<close>

theorem trendScore_absent_counterexample:
  "sma200 (calculateIndicators [\<lparr>date = 0, price = 110, volume = 0\<rparr>] ! 0) = None \<and>
   trendScore (current (calculateIndicators [\<lparr>date = 0, price = 110, volume = 0\<rparr>])) = 1"
  by (simp add: calculateIndicators_drop dataWithIndicators_def indicatorStep_def Let_def
      sma200At_def period200_def current_def trendScore_def jsGt_def)

section \<open>Zero divisors\<close>








end
